theory Spec2Isabelle
  imports Main "HOL-Library.Sublist"
begin

section \<open>Data model (types.ts)\<close>

text \<open>
  The two enums of \<^verbatim>\<open>types.ts\<close>. Their members are string constants, which the
  functions \<open>model_id\<close> and \<open>ratio_text\<close> give.
\<close>

datatype ModelType = FLASH | PRO

fun model_id :: "ModelType \<Rightarrow> string" where
  "model_id FLASH = ''gemini-2.5-flash-image''"
| "model_id PRO = ''gemini-3-pro-image-preview''"

datatype AspectRatio = SQUARE | LANDSCAPE | PORTRAIT | WIDE | TALL

fun ratio_text :: "AspectRatio \<Rightarrow> string" where
  "ratio_text SQUARE = ''1:1''"
| "ratio_text LANDSCAPE = ''16:9''"
| "ratio_text PORTRAIT = ''9:16''"
| "ratio_text WIDE = ''4:3''"
| "ratio_text TALL = ''3:4''"

text \<open>The interface \<^verbatim>\<open>GeneratedImage\<close>; \<open>timestamp\<close> is the value of \<^verbatim>\<open>Date.now()\<close>.\<close>

record GeneratedImage =
  url :: string
  prompt :: string
  timestamp :: nat
  model :: ModelType

section \<open>Strings and thrown values\<close>

text \<open>
  A JavaScript string is modelled as a \<open>string\<close>, one \<open>char\<close> per code unit (code units
  below 256). The empty string is the only falsy string. \<open>str_includes\<close> is
  \<^verbatim>\<open>String.prototype.includes\<close>: the second string occurs in the first as a contiguous
  block. \<open>trim\<close> is \<^verbatim>\<open>String.prototype.trim\<close> with the white space and line terminators
  that exist below code unit 256.
\<close>

fun str_includes :: "string \<Rightarrow> string \<Rightarrow> bool" where
  "str_includes [] sub = (sub = [])"
| "str_includes (c # cs) sub = (prefix sub (c # cs) \<or> str_includes cs sub)"

definition is_white_space :: "char \<Rightarrow> bool" where
  "is_white_space c =
     (c \<in> set [CHR 0x09, CHR 0x0A, CHR 0x0B, CHR 0x0C, CHR 0x0D, CHR 0x20, CHR 0xA0])"

definition trim :: "string \<Rightarrow> string" where
  "trim s = rev (dropWhile is_white_space (rev (dropWhile is_white_space s)))"

text \<open>
  A thrown value is an error object: \<open>Error m\<close> is an object whose \<^verbatim>\<open>message\<close> property
  is \<open>m\<close> (\<open>None\<close> when the property is absent), as \<^verbatim>\<open>new Error("...")\<close> and the provider
  library produce; \<open>TypeError t\<close> is the error the runtime itself raises when a property of
  \<^verbatim>\<open>undefined\<close> is read, with the runtime's message \<open>t\<close>. Thrown values that are not
  objects (\<^verbatim>\<open>throw undefined\<close>) are outside the model.
\<close>

datatype js_error = Error "string option" | TypeError string

fun message :: "js_error \<Rightarrow> string option" where
  "message (Error m) = m"
| "message (TypeError t) = Some t"

text \<open>The message of reading property \<open>p\<close> of \<^verbatim>\<open>undefined\<close> (the wording of V8).\<close>

definition cannot_read :: "string \<Rightarrow> js_error" where
  "cannot_read p =
     TypeError (''Cannot read properties of undefined (reading '' @ [CHR 0x27] @ p @ [CHR 0x27] @ '')'')"

section \<open>The host environment and the remote provider\<close>

text \<open>
  The part of the provider's response that \<^verbatim>\<open>generateImage\<close> reads. Every property is
  optional in the provider library's types; \<open>None\<close> is \<^verbatim>\<open>undefined\<close>.
\<close>

record Blob =
  data :: "string option"
  mimeType :: "string option"

record Part =
  partText :: "string option"
  inlineData :: "Blob option"

record Content =
  parts :: "Part list option"

record Candidate =
  content :: "Content option"

record GenerateContentResponse =
  candidates :: "Candidate list option"

text \<open>
  The argument of \<^verbatim>\<open>ai.models.generateContent\<close>: the model, the text of the single part
  of \<^verbatim>\<open>contents\<close>, and \<^verbatim>\<open>config.imageConfig\<close> (\<open>imageSize\<close> is absent unless set).
\<close>

record GenerateContentParameters =
  req_model :: ModelType
  req_text :: string
  req_aspectRatio :: AspectRatio
  req_imageSize :: "string option"

text \<open>
  \<^verbatim>\<open>window.aistudio\<close>: the two asynchronous capabilities, each given by the outcome of
  its promise (\<open>Inl\<close> a rejection). The environment holds \<^verbatim>\<open>window.aistudio\<close>
  (\<open>None\<close> when undefined), \<^verbatim>\<open>process.env.API_KEY\<close>, and the provider library, which
  is not part of the repository and is therefore a parameter: \<open>new_GoogleGenAI env k\<close> is
  the outcome of \<^verbatim>\<open>new GoogleGenAI({apiKey: k})\<close> (\<open>Inl\<close> when the constructor throws), and
  \<open>generateContent env k p\<close> is the outcome of the call \<open>p\<close> made by a client built with
  the key \<open>k\<close>.
\<close>

record AIStudio =
  hasSelectedApiKey :: "js_error + bool"
  openSelectKey :: "js_error + unit"

record env =
  aistudio :: "AIStudio option"
  API_KEY :: "string option"
  new_GoogleGenAI :: "string option \<Rightarrow> js_error + unit"
  generateContent :: "string option \<Rightarrow> GenerateContentParameters \<Rightarrow> js_error + GenerateContentResponse"

text \<open>
  What an operation does to the outside world, in order: a query of the credential oracle,
  the opening of the credential selector, a network call to the provider,
  a \<^verbatim>\<open>console.error\<close>, a \<^verbatim>\<open>setTimeout\<close> with its delay.
\<close>

datatype event =
    HasSelectedApiKey
  | OpenSelectKey
  | GenerateContent "string option" GenerateContentParameters
  | ConsoleError string js_error
  | SetTimeout nat

fun is_network_call :: "event \<Rightarrow> bool" where
  "is_network_call (GenerateContent k p) = True"
| "is_network_call _ = False"

section \<open>The generation client (GeminiService)\<close>

text \<open>
  \<^verbatim>\<open>checkApiKey\<close>: only for \<open>PRO\<close>, and only when \<^verbatim>\<open>window.aistudio\<close> exists, the
  oracle is asked; a rejection of the oracle propagates.
\<close>

definition checkApiKey :: "env \<Rightarrow> ModelType \<Rightarrow> (js_error + unit) \<times> event list" where
  "checkApiKey e m =
     (if m = PRO then
        (case aistudio e of
           Some a \<Rightarrow>
             (case hasSelectedApiKey a of
                Inl err \<Rightarrow> (Inl err, [HasSelectedApiKey])
              | Inr hasKey \<Rightarrow>
                  if \<not> hasKey then (Inl (Error (Some ''API_KEY_REQUIRED'')), [HasSelectedApiKey])
                  else (Inr (), [HasSelectedApiKey]))
         | None \<Rightarrow> (Inr (), []))
      else (Inr (), []))"

text \<open>
  The loop over the parts: the first part whose \<^verbatim>\<open>inlineData\<close> exists and whose
  \<^verbatim>\<open>data\<close> is a non-empty string gives the data URI; \<open>None\<close> when the loop ends
  without returning.
\<close>

definition data_uri :: "Blob \<Rightarrow> string \<Rightarrow> string" where
  "data_uri b base64Data =
     (let mimeType' = (case mimeType b of
                         Some t \<Rightarrow> if t \<noteq> [] then t else ''image/png''
                       | None \<Rightarrow> ''image/png'')
      in ''data:'' @ mimeType' @ '';base64,'' @ base64Data)"

fun scan_parts :: "Part list \<Rightarrow> string option" where
  "scan_parts [] = None"
| "scan_parts (p # ps) =
     (case inlineData p of
        Some b \<Rightarrow>
          (case data b of
             Some d \<Rightarrow> if d \<noteq> [] then Some (data_uri b d) else scan_parts ps
           | None \<Rightarrow> scan_parts ps)
      | None \<Rightarrow> scan_parts ps)"

text \<open>
  The test \<^verbatim>\<open>part.inlineData && part.inlineData.data\<close> on its own: the part carries
  inline image data.
\<close>

definition has_inline_data :: "Part \<Rightarrow> bool" where
  "has_inline_data p =
     (case inlineData p of
        Some b \<Rightarrow> (case data b of Some d \<Rightarrow> d \<noteq> [] | None \<Rightarrow> False)
      | None \<Rightarrow> False)"

text \<open>
  The body of the \<^verbatim>\<open>try\<close> after the response has arrived. \<^verbatim>\<open>response.candidates\<close> is
  tested for truthiness (an array, even an empty one, is truthy); then
  \<^verbatim>\<open>response.candidates[0].content.parts\<close> is read without a guard, which raises a
  \<open>TypeError\<close> when the array is empty or the first candidate has no content.
\<close>

definition no_image :: js_error where
  "no_image = Error (Some ''No image data found in response'')"

definition read_response :: "GenerateContentResponse \<Rightarrow> js_error + string" where
  "read_response r =
     (case candidates r of
        None \<Rightarrow> Inl no_image
      | Some cs \<Rightarrow>
          (case cs of
             [] \<Rightarrow> Inl (cannot_read ''content'')
           | c # _ \<Rightarrow>
               (case content c of
                  None \<Rightarrow> Inl (cannot_read ''parts'')
                | Some ct \<Rightarrow>
                    (case parts ct of
                       None \<Rightarrow> Inl no_image
                     | Some ps \<Rightarrow>
                         (case scan_parts ps of
                            Some u \<Rightarrow> Inr u
                          | None \<Rightarrow> Inl no_image)))))"

text \<open>The \<^verbatim>\<open>catch\<close> block: what is thrown in place of the caught error.\<close>

definition rethrow :: "ModelType \<Rightarrow> js_error \<Rightarrow> js_error" where
  "rethrow m err =
     (if (case message err of
            Some msg \<Rightarrow> str_includes msg ''Requested entity was not found''
          | None \<Rightarrow> False) \<and> m = PRO
      then Error (Some ''API_KEY_INVALID'')
      else err)"

definition build_request :: "string \<Rightarrow> ModelType \<Rightarrow> AspectRatio \<Rightarrow> GenerateContentParameters" where
  "build_request p m ar =
     \<lparr>req_model = m, req_text = p, req_aspectRatio = ar,
      req_imageSize = (if m = PRO then Some ''4K'' else None)\<rparr>"

text \<open>
  \<^verbatim>\<open>generateImage\<close>. The client is built after the pre-check and before the \<^verbatim>\<open>try\<close>:
  when the constructor throws, its error leaves \<^verbatim>\<open>generateImage\<close> as it is, with no call
  to the provider, no \<^verbatim>\<open>console.error\<close> and no reclassification.
\<close>

definition generateImage ::
  "env \<Rightarrow> string \<Rightarrow> ModelType \<Rightarrow> AspectRatio \<Rightarrow> (js_error + string) \<times> event list" where
  "generateImage e p m ar =
     (case checkApiKey e m of
        (Inl err, evs) \<Rightarrow> (Inl err, evs)
      | (Inr _, evs) \<Rightarrow>
          (case new_GoogleGenAI e (API_KEY e) of
             Inl err \<Rightarrow> (Inl err, evs)
           | Inr _ \<Rightarrow>
               (let req = build_request p m ar;
                    call = GenerateContent (API_KEY e) req
                in case (case generateContent e (API_KEY e) req of
                           Inl err \<Rightarrow> Inl err
                         | Inr response \<Rightarrow> read_response response) of
                     Inr u \<Rightarrow> (Inr u, evs @ [call])
                   | Inl err \<Rightarrow>
                       (Inl (rethrow m err),
                        evs @ [call, ConsoleError ''Gemini Image Generation Error:'' err]))))"


section \<open>The session controller (App)\<close>

text \<open>
  The state hooks of \<^verbatim>\<open>App\<close> as one record. A setter call is an update of its field.
\<close>

record App_state =
  prompt :: string
  model :: ModelType
  aspectRatio :: AspectRatio
  isLoading :: bool
  error :: "string option"
  currentImage :: "GeneratedImage option"
  keySelectionNeeded :: bool

text \<open>
  \<^verbatim>\<open>handleGenerate\<close> in three pieces. \<open>handleGenerate_begin\<close> is the three setter calls
  before the \<^verbatim>\<open>try\<close>; its result is the state while the generation call is awaited.
  \<open>handleGenerate_settle\<close> is what follows the \<^verbatim>\<open>await\<close>: the rest of the \<^verbatim>\<open>try\<close> or
  the \<^verbatim>\<open>catch\<close>, then the \<^verbatim>\<open>finally\<close>. The closure reads \<^verbatim>\<open>prompt\<close> and
  \<^verbatim>\<open>model\<close> from the state \<open>s0\<close> in which the handler was created.
\<close>

definition handleGenerate_begin :: "App_state \<Rightarrow> App_state" where
  "handleGenerate_begin s = s\<lparr>isLoading := True, error := None, keySelectionNeeded := False\<rparr>"

definition handleGenerate_settle ::
  "nat \<Rightarrow> App_state \<Rightarrow> js_error + string \<Rightarrow> App_state \<Rightarrow> App_state" where
  "handleGenerate_settle now s0 outcome s =
     (case outcome of
        Inr imageUrl \<Rightarrow>
          s\<lparr>currentImage :=
              Some \<lparr>url = imageUrl, prompt = prompt s0, timestamp = now, model = model s0\<rparr>\<rparr>
      | Inl err \<Rightarrow>
          if message err = Some ''API_KEY_REQUIRED'' \<or> message err = Some ''API_KEY_INVALID''
          then s\<lparr>keySelectionNeeded := True\<rparr>
          else s\<lparr>error :=
                   Some (case message err of
                           Some msg \<Rightarrow>
                             if msg \<noteq> [] then msg
                             else ''An unexpected error occurred while generating the image.''
                         | None \<Rightarrow> ''An unexpected error occurred while generating the image.'')\<rparr>)
     \<lparr>isLoading := False\<rparr>"

text \<open>
  A run of \<^verbatim>\<open>handleGenerate\<close>: the state while the generation call is awaited (\<open>None\<close>
  when the handler returns before it), the state when the handler has finished, and the
  effects in order. \<open>now\<close> is the value \<^verbatim>\<open>Date.now()\<close> returns.
\<close>

record run =
  awaiting :: "App_state option"
  final :: App_state
  effects :: "event list"

definition handleGenerate :: "env \<Rightarrow> nat \<Rightarrow> App_state \<Rightarrow> run" where
  "handleGenerate e now s =
     (if trim (prompt s) = [] then \<lparr>awaiting = None, final = s, effects = []\<rparr>
      else
        (let s1 = handleGenerate_begin s;
             (outcome, evs) = generateImage e (prompt s) (model s) (aspectRatio s)
         in \<lparr>awaiting = Some s1,
             final = handleGenerate_settle now s outcome s1,
             effects = (case outcome of Inr _ \<Rightarrow> evs @ [SetTimeout 100] | Inl _ \<Rightarrow> evs)\<rparr>))"

text \<open>\<^verbatim>\<open>handleKeySelection\<close>: the new state and the effects.\<close>

definition handleKeySelection :: "env \<Rightarrow> App_state \<Rightarrow> App_state \<times> event list" where
  "handleKeySelection e s =
     (case aistudio e of
        Some a \<Rightarrow>
          (case openSelectKey a of
             Inr _ \<Rightarrow> (s\<lparr>keySelectionNeeded := False\<rparr>, [OpenSelectKey])
           | Inl err \<Rightarrow>
               (s\<lparr>error := Some ''Failed to select API key. Please try again.''\<rparr>,
                [OpenSelectKey, ConsoleError ''Key selection failed'' err]))
      | None \<Rightarrow> (s\<lparr>error := Some ''AI Studio environment not detected.''\<rparr>, []))"

section \<open>Sample hosts, providers and states\<close>

text \<open>Concrete hosts and providers on which the theorems below are exercised.\<close>

definition host_without_key :: AIStudio where
  "host_without_key = \<lparr>hasSelectedApiKey = Inr False, openSelectKey = Inr ()\<rparr>"

definition host_with_key :: AIStudio where
  "host_with_key = \<lparr>hasSelectedApiKey = Inr True, openSelectKey = Inr ()\<rparr>"

definition host_selector_fails :: AIStudio where
  "host_selector_fails =
     \<lparr>hasSelectedApiKey = Inr False, openSelectKey = Inl (Error (Some ''dialog dismissed''))\<rparr>"

definition png_part :: Part where
  "png_part =
     \<lparr>partText = None,
      inlineData = Some \<lparr>data = Some ''iVBORw0KGgo='', mimeType = Some ''image/png''\<rparr>\<rparr>"

definition untyped_part :: Part where
  "untyped_part = \<lparr>partText = None, inlineData = Some \<lparr>data = Some ''R0lGODlh'', mimeType = None\<rparr>\<rparr>"

definition text_part :: Part where
  "text_part = \<lparr>partText = Some ''Here is your image.'', inlineData = None\<rparr>"

definition response_of_parts :: "Part list \<Rightarrow> GenerateContentResponse" where
  "response_of_parts ps = \<lparr>candidates = Some [\<lparr>content = Some \<lparr>parts = Some ps\<rparr>\<rparr>]\<rparr>"

text \<open>
  A constructor that refuses a missing key, as the browser build of the provider library
  does, and builds the client otherwise.
\<close>

definition browser_client :: "string option \<Rightarrow> js_error + unit" where
  "browser_client k =
     (case k of
        None \<Rightarrow> Inl (Error (Some ''An API Key must be set when running in a browser''))
      | Some _ \<Rightarrow> Inr ())"

definition provider_returns ::
  "GenerateContentResponse \<Rightarrow> string option \<Rightarrow> GenerateContentParameters \<Rightarrow> js_error + GenerateContentResponse" where
  "provider_returns r k p = Inr r"

definition provider_fails ::
  "string \<Rightarrow> string option \<Rightarrow> GenerateContentParameters \<Rightarrow> js_error + GenerateContentResponse" where
  "provider_fails msg k p = Inl (Error (Some msg))"

definition red_cube :: App_state where
  "red_cube =
     \<lparr>prompt = ''a red cube'', model = FLASH, aspectRatio = SQUARE, isLoading = False,
      error = Some ''earlier failure'',
      currentImage = Some \<lparr>url = ''data:image/png;base64,AAAA'', prompt = ''a blue ball'',
                            timestamp = 7, model = FLASH\<rparr>,
      keySelectionNeeded = True\<rparr>"

section \<open>Properties of the generation client\<close>

lemma str_includes_sublist: "str_includes s sub = sublist sub s"
  by (induction s) (auto simp: sublist_Cons_right)

lemma checkApiKey_FLASH: "checkApiKey e FLASH = (Inr (), [])"
  by (simp add: checkApiKey_def)


lemma checkApiKey_no_credential:
  "aistudio e = Some a \<Longrightarrow> hasSelectedApiKey a = Inr False \<Longrightarrow>
   checkApiKey e PRO = (Inl (Error (Some ''API_KEY_REQUIRED'')), [HasSelectedApiKey])"
  by (simp add: checkApiKey_def)

text \<open>
  Claim C1. For the high-fidelity tier (\<open>PRO\<close>), when the credential oracle of
  \<^verbatim>\<open>window.aistudio\<close> reports that no credential is selected, \<open>generateImage\<close> fails with
  the error whose message is \<^verbatim>\<open>API_KEY_REQUIRED\<close>, and no network call to the provider
  is among its effects: the only effect is the query of the oracle.
\<close>

theorem generateImage_credential_required:
  assumes "aistudio e = Some a" and "hasSelectedApiKey a = Inr False"
  shows "fst (generateImage e p PRO ar) = Inl (Error (Some ''API_KEY_REQUIRED'')) \<and>
         filter is_network_call (snd (generateImage e p PRO ar)) = [] \<and>
         snd (generateImage e p PRO ar) = [HasSelectedApiKey]"
  using checkApiKey_no_credential [OF assms]
  by (simp add: generateImage_def)

theorem generateImage_credential_required_witness:
  "fst (generateImage \<lparr>aistudio = Some host_without_key, API_KEY = None, new_GoogleGenAI = browser_client,
                        generateContent = provider_returns (response_of_parts [png_part])\<rparr>
          ''a red cube'' PRO SQUARE) = Inl (Error (Some ''API_KEY_REQUIRED'')) \<and>
   snd (generateImage \<lparr>aistudio = Some host_without_key, API_KEY = None, new_GoogleGenAI = browser_client,
                        generateContent = provider_returns (response_of_parts [png_part])\<rparr>
          ''a red cube'' PRO SQUARE) = [HasSelectedApiKey]"
  using generateImage_credential_required
          [of "\<lparr>aistudio = Some host_without_key, API_KEY = None, new_GoogleGenAI = browser_client,
                generateContent = provider_returns (response_of_parts [png_part])\<rparr>"
              host_without_key "''a red cube''" SQUARE]
  by (simp add: host_without_key_def)

lemma generateImage_after_check:
  "fst (checkApiKey e m) = Inr () \<Longrightarrow> new_GoogleGenAI e (API_KEY e) = Inr () \<Longrightarrow>
   fst (generateImage e p m ar) =
     (case generateContent e (API_KEY e) (build_request p m ar) of
        Inl err \<Rightarrow> Inl (rethrow m err)
      | Inr r \<Rightarrow> (case read_response r of Inl err \<Rightarrow> Inl (rethrow m err) | Inr u \<Rightarrow> Inr u))"
  by (cases "checkApiKey e m") (simp add: generateImage_def Let_def split: sum.splits)

lemma generateImage_client_not_built:
  "fst (checkApiKey e m) = Inr () \<Longrightarrow> new_GoogleGenAI e (API_KEY e) = Inl err \<Longrightarrow>
   generateImage e p m ar = (Inl err, snd (checkApiKey e m))"
  by (cases "checkApiKey e m") (simp add: generateImage_def)

lemma browser_client_key: "browser_client (Some k) = Inr ()"
  by (simp add: browser_client_def)

text \<open>
  Claim C2. When the provider call is made (the pre-check has passed and the client has
  been built) and fails with an error whose message contains
  \<^verbatim>\<open>Requested entity was not found\<close>: under \<open>PRO\<close> \<open>generateImage\<close> fails with the error
  whose message is \<^verbatim>\<open>API_KEY_INVALID\<close>; under \<open>FLASH\<close> it fails with the provider's own
  error, unchanged.
\<close>

theorem entity_not_found_reclassified:
  assumes "fst (checkApiKey e m) = Inr ()"
    and "new_GoogleGenAI e (API_KEY e) = Inr ()"
    and "generateContent e (API_KEY e) (build_request p m ar) = Inl err"
    and "message err = Some msg"
    and "str_includes msg ''Requested entity was not found''"
  shows "fst (generateImage e p m ar) =
           Inl (case m of PRO \<Rightarrow> Error (Some ''API_KEY_INVALID'') | FLASH \<Rightarrow> err)"
  using assms by (cases m) (simp_all add: generateImage_after_check rethrow_def)

theorem entity_not_found_reclassified_witness:
  "fst (generateImage \<lparr>aistudio = Some host_with_key, API_KEY = Some ''key'', new_GoogleGenAI = browser_client,
                        generateContent = provider_fails ''Requested entity was not found.''\<rparr>
          ''a red cube'' PRO SQUARE) = Inl (Error (Some ''API_KEY_INVALID'')) \<and>
   fst (generateImage \<lparr>aistudio = Some host_with_key, API_KEY = Some ''key'', new_GoogleGenAI = browser_client,
                        generateContent = provider_fails ''Requested entity was not found.''\<rparr>
          ''a red cube'' FLASH SQUARE) = Inl (Error (Some ''Requested entity was not found.''))"
proof -
  let ?e = "\<lparr>aistudio = Some host_with_key, API_KEY = Some ''key'', new_GoogleGenAI = browser_client,
             generateContent = provider_fails ''Requested entity was not found.''\<rparr>"
  let ?err = "Error (Some ''Requested entity was not found.'')"
  have check: "fst (checkApiKey ?e m) = Inr ()" for m
    by (simp add: checkApiKey_def host_with_key_def)
  have built: "new_GoogleGenAI ?e (API_KEY ?e) = Inr ()"
    by (simp add: browser_client_key)
  have fails: "generateContent ?e (API_KEY ?e) (build_request ''a red cube'' m SQUARE) = Inl ?err" for m
    by (simp add: provider_fails_def)
  have msg: "message ?err = Some ''Requested entity was not found.''"
    by simp
  have sig: "str_includes ''Requested entity was not found.'' ''Requested entity was not found''"
    by simp
  show ?thesis
    using entity_not_found_reclassified [OF check built fails msg sig, of PRO]
          entity_not_found_reclassified [OF check built fails msg sig, of FLASH]
    by simp
qed

section \<open>Reading the response\<close>

lemma scan_parts_skip:
  "\<forall>q\<in>set pre. \<not> has_inline_data q \<Longrightarrow> scan_parts (pre @ rest) = scan_parts rest"
  by (induction pre) (auto simp: has_inline_data_def split: option.splits)

lemma scan_parts_None: "scan_parts ps = None \<longleftrightarrow> (\<forall>q\<in>set ps. \<not> has_inline_data q)"
  by (induction ps) (auto simp: has_inline_data_def split: option.splits)

text \<open>
  Claim C5. When the provider call is made (the pre-check has passed and the client has
  been built) and answers with a response whose first
  candidate has parts, and \<open>pt\<close> is the first of them that carries inline image data
  (\<open>pre\<close> are the parts before it, none of which does; \<open>post\<close> are the parts after it,
  whatever they are), \<open>generateImage\<close> returns \<^verbatim>\<open>data:\<close>, then the media type that \<open>pt\<close>
  declares, or \<^verbatim>\<open>image/png\<close> when it declares none or an empty one, then
  \<^verbatim>\<open>;base64,\<close>, then the payload of \<open>pt\<close>.
\<close>

theorem first_image_part_returned:
  assumes "fst (checkApiKey e m) = Inr ()"
    and "new_GoogleGenAI e (API_KEY e) = Inr ()"
    and "generateContent e (API_KEY e) (build_request p m ar) = Inr r"
    and "candidates r = Some (c # cs)"
    and "content c = Some ct"
    and "parts ct = Some (pre @ pt # post)"
    and "\<forall>q\<in>set pre. \<not> has_inline_data q"
    and "inlineData pt = Some b" and "data b = Some d" and "d \<noteq> []"
  shows "fst (generateImage e p m ar) =
           Inr (''data:'' @
                (case mimeType b of
                   Some t \<Rightarrow> if t \<noteq> [] then t else ''image/png''
                 | None \<Rightarrow> ''image/png'') @
                '';base64,'' @ d)"
proof -
  have "scan_parts (pre @ pt # post) = Some (data_uri b d)"
    using assms(7-10) by (simp add: scan_parts_skip)
  then have "read_response r = Inr (data_uri b d)"
    using assms(4-6) by (simp add: read_response_def)
  then show ?thesis
    using assms(1-3) by (simp add: generateImage_after_check data_uri_def)
qed

theorem first_image_part_returned_witness:
  "fst (generateImage \<lparr>aistudio = None, API_KEY = Some ''key'', new_GoogleGenAI = browser_client,
                        generateContent =
                          provider_returns (response_of_parts [text_part, untyped_part, png_part])\<rparr>
          ''a red cube'' FLASH SQUARE) = Inr ''data:image/png;base64,R0lGODlh'' \<and>
   fst (generateImage \<lparr>aistudio = None, API_KEY = Some ''key'', new_GoogleGenAI = browser_client,
                        generateContent = provider_returns (response_of_parts [png_part])\<rparr>
          ''a red cube'' FLASH SQUARE) = Inr ''data:image/png;base64,iVBORw0KGgo=''"
proof -
  let ?e = "\<lambda>ps. \<lparr>aistudio = None, API_KEY = Some ''key'', new_GoogleGenAI = browser_client,
                  generateContent = provider_returns (response_of_parts ps)\<rparr>"
  have check: "fst (checkApiKey (?e ps) FLASH) = Inr ()" for ps
    by (simp add: checkApiKey_FLASH)
  have built: "new_GoogleGenAI (?e ps) (API_KEY (?e ps)) = Inr ()" for ps
    by (simp add: browser_client_key)
  have answer: "generateContent (?e ps) (API_KEY (?e ps)) (build_request ''a red cube'' FLASH SQUARE)
                  = Inr (response_of_parts ps)" for ps
    by (simp add: provider_returns_def)
  have cands: "candidates (response_of_parts ps) = Some (\<lparr>content = Some \<lparr>parts = Some ps\<rparr>\<rparr> # [])" for ps
    by (simp add: response_of_parts_def)
  have ct: "content \<lparr>content = Some \<lparr>parts = Some ps\<rparr>\<rparr> = Some \<lparr>parts = Some ps\<rparr>" for ps :: "Part list"
    by simp
  have ps1: "parts \<lparr>parts = Some [text_part, untyped_part, png_part]\<rparr>
               = Some ([text_part] @ untyped_part # [png_part])"
    by simp
  have ps2: "parts \<lparr>parts = Some [png_part]\<rparr> = Some ([] @ png_part # [])"
    by simp
  have pre1: "\<forall>q\<in>set [text_part]. \<not> has_inline_data q"
    by (simp add: has_inline_data_def text_part_def)
  have pre2: "\<forall>q\<in>set ([] :: Part list). \<not> has_inline_data q"
    by simp
  have b1: "inlineData untyped_part = Some \<lparr>data = Some ''R0lGODlh'', mimeType = None\<rparr>"
    by (simp add: untyped_part_def)
  have b2: "inlineData png_part = Some \<lparr>data = Some ''iVBORw0KGgo='', mimeType = Some ''image/png''\<rparr>"
    by (simp add: png_part_def)
  show ?thesis
    using first_image_part_returned [OF check built answer cands ct ps1 pre1 b1, of "''R0lGODlh''"]
          first_image_part_returned [OF check built answer cands ct ps2 pre2 b2, of "''iVBORw0KGgo=''"]
    by simp
qed

lemma no_image_part:
  assumes "fst (checkApiKey e m) = Inr ()"
    and "new_GoogleGenAI e (API_KEY e) = Inr ()"
    and "generateContent e (API_KEY e) (build_request p m ar) = Inr r"
    and "candidates r = Some (c # cs)"
    and "content c = Some ct"
    and "parts ct = Some ps"
    and "\<forall>q\<in>set ps. \<not> has_inline_data q"
  shows "fst (generateImage e p m ar) = Inl no_image"
proof -
  have "scan_parts ps = None"
    using assms(7) by (simp add: scan_parts_None)
  then have "read_response r = Inl no_image"
    using assms(4-6) by (simp add: read_response_def)
  then show ?thesis
    using assms(1-3) by (simp add: generateImage_after_check rethrow_def no_image_def)
qed

lemma no_candidates_property:
  assumes "fst (checkApiKey e m) = Inr ()"
    and "new_GoogleGenAI e (API_KEY e) = Inr ()"
    and "generateContent e (API_KEY e) (build_request p m ar) = Inr r"
    and "candidates r = None"
  shows "fst (generateImage e p m ar) = Inl no_image"
  using assms by (simp add: generateImage_after_check read_response_def rethrow_def no_image_def)

lemma zero_parts_at_controller:
  "final (handleGenerate \<lparr>aistudio = None, API_KEY = Some ''key'', new_GoogleGenAI = browser_client,
                          generateContent = provider_returns (response_of_parts [])\<rparr> 42 red_cube) =
     red_cube\<lparr>error := Some ''No image data found in response'', keySelectionNeeded := False\<rparr>"
  by (simp add: handleGenerate_def trim_def is_white_space_def red_cube_def generateImage_def
        checkApiKey_def browser_client_def provider_returns_def response_of_parts_def
        read_response_def rethrow_def no_image_def build_request_def handleGenerate_begin_def
        handleGenerate_settle_def)

text \<open>
  Claim C4. The claim is that every response without a part carrying inline image data
  makes \<open>generateImage\<close> fail with \<^verbatim>\<open>No image data found in response\<close>. That holds when
  the response has no candidates property, and when its first candidate has a list of
  parts (\<open>no_candidates_property\<close>, \<open>no_image_part\<close>, \<open>zero_parts_at_controller\<close>). It
  fails for a response whose first candidate has no content, and for one whose list of
  candidates is empty: the unguarded read \<^verbatim>\<open>response.candidates[0].content.parts\<close>
  raises a \<open>TypeError\<close>, which is what \<open>generateImage\<close> then throws.
\<close>

theorem candidate_without_content_type_error:
  "fst (generateImage \<lparr>aistudio = None, API_KEY = Some ''key'', new_GoogleGenAI = browser_client,
                        generateContent = provider_returns \<lparr>candidates = Some [\<lparr>content = None\<rparr>]\<rparr>\<rparr>
          ''a red cube'' FLASH SQUARE) = Inl (cannot_read ''parts'') \<and>
   fst (generateImage \<lparr>aistudio = None, API_KEY = Some ''key'', new_GoogleGenAI = browser_client,
                        generateContent = provider_returns \<lparr>candidates = Some []\<rparr>\<rparr>
          ''a red cube'' FLASH SQUARE) = Inl (cannot_read ''content'') \<and>
   cannot_read ''parts'' \<noteq> no_image \<and> cannot_read ''content'' \<noteq> no_image"
  by (simp add: generateImage_def checkApiKey_def browser_client_def provider_returns_def
        read_response_def rethrow_def cannot_read_def no_image_def build_request_def)

section \<open>Properties of the session controller\<close>

lemma settle_not_loading: "\<not> isLoading (handleGenerate_settle now s0 outcome s)"
  by (simp add: handleGenerate_settle_def split: sum.splits)

lemma trim_red_cube: "trim (prompt red_cube) \<noteq> []"
  by (simp add: trim_def is_white_space_def red_cube_def)

text \<open>
  Claim C3. When the trimmed prompt is not empty, whatever the generation call does
  (the environment \<open>e\<close> is arbitrary): the state while the call is awaited has
  \<open>isLoading\<close> true, the final state is that state with the outcome recorded, and
  \<open>isLoading\<close> is false in the final state.
\<close>

theorem in_flight_bracket:
  assumes "trim (prompt s) \<noteq> []"
  shows "awaiting (handleGenerate e now s) = Some (handleGenerate_begin s) \<and>
         isLoading (handleGenerate_begin s) \<and>
         final (handleGenerate e now s) =
           handleGenerate_settle now s (fst (generateImage e (prompt s) (model s) (aspectRatio s)))
             (handleGenerate_begin s) \<and>
         \<not> isLoading (final (handleGenerate e now s))"
  using assms
  by (simp add: handleGenerate_def Let_def split_beta settle_not_loading handleGenerate_begin_def)

theorem in_flight_bracket_witness:
  "awaiting (handleGenerate \<lparr>aistudio = None, API_KEY = Some ''key'', new_GoogleGenAI = browser_client,
                             generateContent = provider_returns (response_of_parts [png_part])\<rparr>
               42 red_cube) = Some (handleGenerate_begin red_cube) \<and>
   isLoading (handleGenerate_begin red_cube) \<and>
   \<not> isLoading (final (handleGenerate \<lparr>aistudio = None, API_KEY = Some ''key'', new_GoogleGenAI = browser_client,
                             generateContent = provider_returns (response_of_parts [png_part])\<rparr>
               42 red_cube)) \<and>
   \<not> isLoading (final (handleGenerate \<lparr>aistudio = None, API_KEY = Some ''key'', new_GoogleGenAI = browser_client,
                             generateContent = provider_fails ''quota exceeded''\<rparr>
               42 red_cube))"
  using in_flight_bracket [OF trim_red_cube,
          of "\<lparr>aistudio = None, API_KEY = Some ''key'', new_GoogleGenAI = browser_client,
               generateContent = provider_returns (response_of_parts [png_part])\<rparr>" 42]
        in_flight_bracket [OF trim_red_cube,
          of "\<lparr>aistudio = None, API_KEY = Some ''key'', new_GoogleGenAI = browser_client,
               generateContent = provider_fails ''quota exceeded''\<rparr>" 42]
  by blast

text \<open>
  Claim C6. When the trimmed prompt is not empty, the state while the generation call is
  awaited is the starting state with \<open>error\<close> set to \<open>None\<close> and \<open>keySelectionNeeded\<close> set
  to \<open>False\<close> (and \<open>isLoading\<close> to \<open>True\<close>); it does not depend on the environment, so
  not on the outcome of the call.
\<close>

theorem attempt_clears_flags:
  assumes "trim (prompt s) \<noteq> []"
  shows "awaiting (handleGenerate e now s) =
           Some (s\<lparr>isLoading := True, error := None, keySelectionNeeded := False\<rparr>) \<and>
         (\<exists>s1. awaiting (handleGenerate e now s) = Some s1 \<and> error s1 = None \<and>
               \<not> keySelectionNeeded s1)"
  using assms
  by (simp add: handleGenerate_def Let_def split_beta handleGenerate_begin_def)

theorem attempt_clears_flags_witness:
  "error red_cube = Some ''earlier failure'' \<and> keySelectionNeeded red_cube \<and>
   awaiting (handleGenerate \<lparr>aistudio = None, API_KEY = Some ''key'', new_GoogleGenAI = browser_client,
                             generateContent = provider_fails ''quota exceeded''\<rparr>
               42 red_cube) =
     Some (red_cube\<lparr>isLoading := True, error := None, keySelectionNeeded := False\<rparr>)"
  using attempt_clears_flags [OF trim_red_cube,
          of "\<lparr>aistudio = None, API_KEY = Some ''key'', new_GoogleGenAI = browser_client,
               generateContent = provider_fails ''quota exceeded''\<rparr>" 42]
  by (simp add: red_cube_def)

text \<open>
  Claim C7. When the trimmed prompt is empty, \<open>handleGenerate\<close> returns at once: the
  final state is the starting state, nothing is awaited (\<open>generateImage\<close> is not
  called), and there is no effect at all. \<open>handleGenerate\<close> has no way to raise: it
  returns a run for every input.
\<close>

theorem empty_prompt_noop:
  assumes "trim (prompt s) = []"
  shows "handleGenerate e now s = \<lparr>awaiting = None, final = s, effects = []\<rparr>"
  using assms by (simp add: handleGenerate_def)

theorem empty_prompt_noop_witness:
  "trim (prompt (red_cube\<lparr>prompt := [CHR 0x20, CHR 0x09, CHR 0x0A]\<rparr>)) = [] \<and>
   handleGenerate \<lparr>aistudio = None, API_KEY = Some ''key'', new_GoogleGenAI = browser_client,
                   generateContent = provider_returns (response_of_parts [png_part])\<rparr>
     42 (red_cube\<lparr>prompt := [CHR 0x20, CHR 0x09, CHR 0x0A]\<rparr>) =
     \<lparr>awaiting = None, final = red_cube\<lparr>prompt := [CHR 0x20, CHR 0x09, CHR 0x0A]\<rparr>, effects = []\<rparr>"
proof -
  have blank: "trim (prompt (red_cube\<lparr>prompt := [CHR 0x20, CHR 0x09, CHR 0x0A]\<rparr>)) = []"
    by (simp add: trim_def is_white_space_def)
  show ?thesis
    using blank empty_prompt_noop [OF blank,
            of "\<lparr>aistudio = None, API_KEY = Some ''key'', new_GoogleGenAI = browser_client,
                 generateContent = provider_returns (response_of_parts [png_part])\<rparr>" 42]
    by simp
qed

text \<open>
  Claim C8. With \<^verbatim>\<open>window.aistudio\<close> present: when the selector completes, the new state
  is the old one with \<open>keySelectionNeeded\<close> false, and the only effect is the opening of
  the selector (no oracle query, no network call). When the selector raises, the new
  state is the old one with \<open>error\<close> set to the fixed message, so \<open>keySelectionNeeded\<close>
  is what it was; again no network call.
\<close>

theorem key_selection:
  assumes "aistudio e = Some a"
  shows "(openSelectKey a = Inr () \<longrightarrow>
            handleKeySelection e s = (s\<lparr>keySelectionNeeded := False\<rparr>, [OpenSelectKey])) \<and>
         (\<forall>err. openSelectKey a = Inl err \<longrightarrow>
            fst (handleKeySelection e s) =
              s\<lparr>error := Some ''Failed to select API key. Please try again.''\<rparr> \<and>
            keySelectionNeeded (fst (handleKeySelection e s)) = keySelectionNeeded s \<and>
            filter is_network_call (snd (handleKeySelection e s)) = [])"
  using assms by (simp add: handleKeySelection_def)

theorem key_selection_witness:
  "handleKeySelection \<lparr>aistudio = Some host_with_key, API_KEY = None, new_GoogleGenAI = browser_client,
                       generateContent = provider_fails ''unused''\<rparr> red_cube =
     (red_cube\<lparr>keySelectionNeeded := False\<rparr>, [OpenSelectKey]) \<and>
   fst (handleKeySelection \<lparr>aistudio = Some host_selector_fails, API_KEY = None, new_GoogleGenAI = browser_client,
                            generateContent = provider_fails ''unused''\<rparr> red_cube) =
     red_cube\<lparr>error := Some ''Failed to select API key. Please try again.''\<rparr> \<and>
   keySelectionNeeded (fst (handleKeySelection \<lparr>aistudio = Some host_selector_fails, API_KEY = None, new_GoogleGenAI = browser_client,
                            generateContent = provider_fails ''unused''\<rparr> red_cube))"
  using key_selection [of "\<lparr>aistudio = Some host_with_key, API_KEY = None, new_GoogleGenAI = browser_client,
                            generateContent = provider_fails ''unused''\<rparr>" host_with_key red_cube]
        key_selection [of "\<lparr>aistudio = Some host_selector_fails, API_KEY = None, new_GoogleGenAI = browser_client,
                            generateContent = provider_fails ''unused''\<rparr>" host_selector_fails red_cube]
  by (simp add: host_with_key_def host_selector_fails_def red_cube_def)

text \<open>
  Claim C9. When the trimmed prompt is not empty and the generation call fails with
  \<open>err\<close>: \<open>currentImage\<close> in the final state is what it was. If the message of \<open>err\<close> is
  \<^verbatim>\<open>API_KEY_REQUIRED\<close> or \<^verbatim>\<open>API_KEY_INVALID\<close>, \<open>keySelectionNeeded\<close> is true and
  \<open>error\<close> is \<open>None\<close>; otherwise \<open>error\<close> is the message of \<open>err\<close> (the fallback text
  when the message is absent or empty) and \<open>keySelectionNeeded\<close> is false. So never both.
\<close>

theorem failed_attempt_frame:
  assumes "trim (prompt s) \<noteq> []"
    and "fst (generateImage e (prompt s) (model s) (aspectRatio s)) = Inl err"
  shows "currentImage (final (handleGenerate e now s)) = currentImage s \<and>
         (if message err = Some ''API_KEY_REQUIRED'' \<or> message err = Some ''API_KEY_INVALID''
          then keySelectionNeeded (final (handleGenerate e now s)) \<and>
               error (final (handleGenerate e now s)) = None
          else error (final (handleGenerate e now s)) =
                 Some (case message err of
                         Some msg \<Rightarrow>
                           if msg \<noteq> [] then msg
                           else ''An unexpected error occurred while generating the image.''
                       | None \<Rightarrow> ''An unexpected error occurred while generating the image.'') \<and>
               \<not> keySelectionNeeded (final (handleGenerate e now s))) \<and>
         \<not> (keySelectionNeeded (final (handleGenerate e now s)) \<and>
            error (final (handleGenerate e now s)) \<noteq> None)"
  using assms
  by (simp add: handleGenerate_def Let_def split_beta handleGenerate_begin_def
        handleGenerate_settle_def)

theorem failed_attempt_frame_witness:
  "currentImage (final (handleGenerate \<lparr>aistudio = None, API_KEY = Some ''key'', new_GoogleGenAI = browser_client,
                                        generateContent = provider_fails ''quota exceeded''\<rparr>
                          42 red_cube)) = currentImage red_cube \<and>
   error (final (handleGenerate \<lparr>aistudio = None, API_KEY = Some ''key'', new_GoogleGenAI = browser_client,
                                 generateContent = provider_fails ''quota exceeded''\<rparr>
                   42 red_cube)) = Some ''quota exceeded'' \<and>
   \<not> keySelectionNeeded (final (handleGenerate \<lparr>aistudio = None, API_KEY = Some ''key'', new_GoogleGenAI = browser_client,
                                 generateContent = provider_fails ''quota exceeded''\<rparr>
                   42 red_cube)) \<and>
   currentImage (final (handleGenerate \<lparr>aistudio = Some host_without_key, API_KEY = None, new_GoogleGenAI = browser_client,
                                        generateContent = provider_fails ''quota exceeded''\<rparr>
                          42 (red_cube\<lparr>model := PRO\<rparr>))) = currentImage red_cube \<and>
   error (final (handleGenerate \<lparr>aistudio = Some host_without_key, API_KEY = None, new_GoogleGenAI = browser_client,
                                 generateContent = provider_fails ''quota exceeded''\<rparr>
                   42 (red_cube\<lparr>model := PRO\<rparr>))) = None \<and>
   keySelectionNeeded (final (handleGenerate \<lparr>aistudio = Some host_without_key, API_KEY = None, new_GoogleGenAI = browser_client,
                                 generateContent = provider_fails ''quota exceeded''\<rparr>
                   42 (red_cube\<lparr>model := PRO\<rparr>)))"
proof -
  let ?e1 = "\<lparr>aistudio = None, API_KEY = Some ''key'', new_GoogleGenAI = browser_client,
              generateContent = provider_fails ''quota exceeded''\<rparr>"
  let ?e2 = "\<lparr>aistudio = Some host_without_key, API_KEY = None, new_GoogleGenAI = browser_client,
              generateContent = provider_fails ''quota exceeded''\<rparr>"
  have t2: "trim (prompt (red_cube\<lparr>model := PRO\<rparr>)) \<noteq> []"
    using trim_red_cube by simp
  have f1: "fst (generateImage ?e1 (prompt red_cube) (model red_cube) (aspectRatio red_cube))
              = Inl (Error (Some ''quota exceeded''))"
    by (simp add: generateImage_def checkApiKey_def browser_client_def provider_fails_def
          rethrow_def red_cube_def)
  have f2: "fst (generateImage ?e2 (prompt (red_cube\<lparr>model := PRO\<rparr>)) (model (red_cube\<lparr>model := PRO\<rparr>))
                   (aspectRatio (red_cube\<lparr>model := PRO\<rparr>)))
              = Inl (Error (Some ''API_KEY_REQUIRED''))"
    by (simp add: generateImage_def checkApiKey_def host_without_key_def)
  show ?thesis
    using failed_attempt_frame [OF trim_red_cube f1, of 42]
          failed_attempt_frame [OF t2 f2, of 42]
    by simp
qed

section \<open>The pre-check without a host\<close>






end
